theory Spec2Isabelle
  imports Main
begin

section \<open>Byte strings\<close>

text \<open>
  Python \<open>bytes\<close> values are modelled as \<open>string\<close> (a list of 8-bit characters).
  Only the operations the two modules use are embedded.
\<close>

type_synonym bytes = string

definition byte_val :: "char \<Rightarrow> nat" where
  "byte_val c = of_char c"

text \<open>\<open>bytes.upper()\<close> and \<open>lower()\<close>: only the ASCII letters change.\<close>

definition upper_byte :: "char \<Rightarrow> char" where
  "upper_byte c = (if 97 \<le> byte_val c \<and> byte_val c \<le> 122 then char_of (byte_val c - 32) else c)"

definition lower_byte :: "char \<Rightarrow> char" where
  "lower_byte c = (if 65 \<le> byte_val c \<and> byte_val c \<le> 90 then char_of (byte_val c + 32) else c)"

definition upper :: "bytes \<Rightarrow> bytes" where
  "upper s = map upper_byte s"

definition lower :: "bytes \<Rightarrow> bytes" where
  "lower s = map lower_byte s"

text \<open>\<open>s.replace(old, new)\<close> where \<open>old\<close> is a single byte, as at every call site.\<close>

fun replace_byte :: "char \<Rightarrow> bytes \<Rightarrow> bytes \<Rightarrow> bytes" where
  "replace_byte old new [] = []"
| "replace_byte old new (c # cs) =
     (if c = old then new @ replace_byte old new cs else c # replace_byte old new cs)"

text \<open>\<open>s.split(sep)\<close> for a single-byte separator: the list of segments, never empty.\<close>

fun split_byte :: "char \<Rightarrow> bytes \<Rightarrow> bytes list" where
  "split_byte sep [] = [[]]"
| "split_byte sep (c # cs) =
     (if c = sep then [] # split_byte sep cs
      else (case split_byte sep cs of
              seg # segs \<Rightarrow> (c # seg) # segs
            | [] \<Rightarrow> [[c]]))"

text \<open>\<open>s.lstrip(chars)\<close> for a single character.\<close>

definition lstrip :: "char \<Rightarrow> bytes \<Rightarrow> bytes" where
  "lstrip ch s = dropWhile (\<lambda>c. c = ch) s"

fun startswith :: "bytes \<Rightarrow> bytes \<Rightarrow> bool" where
  "startswith [] s = True"
| "startswith (p # ps) [] = False"
| "startswith (p # ps) (c # cs) = (p = c \<and> startswith ps cs)"

text \<open>\<open>sub in s\<close> on byte strings.\<close>

fun contains :: "bytes \<Rightarrow> bytes \<Rightarrow> bool" where
  "contains sub [] = (sub = [])"
| "contains sub (c # cs) = (startswith sub (c # cs) \<or> contains sub cs)"


section \<open>identify\_playstation2\_games: constants\<close>

definition BUFFER_SIZE :: nat where
  "BUFFER_SIZE = 1024 * 1024 * 10"

definition MAX_PREFIX_LEN :: nat where
  "MAX_PREFIX_LEN = 6"

definition PREFIXES :: "bytes list" where
  "PREFIXES =
    [''SLPM'', ''SLES'', ''SCES'', ''SLUS'', ''SLPS'', ''SCUS'', ''SCPS'', ''SCAJ'',
     ''SLKA'', ''SCKA'', ''SLAJ'', ''NPJD'', ''TCPS'', ''KOEI'', ''NPUD'', ''ALCH'',
     ''PBGP'', ''NPED'', ''CPCS'', ''FVGK'', ''SCED'', ''NPJC'', ''GN'', ''GUST'',
     ''HSN'', ''SLED'', ''DMP'', ''INCH'', ''PBPX'', ''KAD'', ''SLPN'', ''TCES'',
     ''NPUC'', ''DESR'', ''PAPX'', ''PBPS'', ''PCPX'', ''ROSE'', ''SRPM'', ''SCEE'',
     ''HAKU'', ''GER'', ''HKID'', ''MPR'', ''GWS'', ''HKHS'', ''NS'', ''XSPL'',
     ''Sierra'', ''ARZE'', ''VUGJ'', ''VO'', ''WFLD'']"


section \<open>The orchestrator's lookup loop\<close>

datatype error =
    NotAnIsoOrBin          \<comment> \<open>\<open>Exception("Not an ISO or BIN file.")\<close>\<close>
  | NotFoundInDatabase     \<comment> \<open>\<open>Exception("Failed to find game in database.")\<close>\<close>
  | AttributeError         \<comment> \<open>a method called on \<open>None\<close>\<close>
  | NotImplementedError
  | BufferTooSmall         \<comment> \<open>\<open>BaseTag._assert_size\<close>\<close>
  | StructError            \<comment> \<open>\<open>struct.unpack\<close> on a slice of the wrong length\<close>
  | UnknownTagIdentifier   \<comment> \<open>\<open>Exception("Tag Identifier was unknown")\<close>\<close>
  | ChecksumMismatch nat nat
  | UnexpectedTagIdentifier nat nat
  | ReserveSpaceNotZero nat
  | NoSectorSize           \<comment> \<open>\<open>Exception("Could not get file sector size.")\<close>\<close>
  | SeekError              \<comment> \<open>\<open>seek\<close> to a negative position\<close>
  | ReaderFailed           \<comment> \<open>any exception of a filesystem reader, swallowed by the caller\<close>

type_synonym db = "bytes \<rightharpoonup> string"

record databases =
  db_playstation2_official_as :: db
  db_playstation2_official_au :: db
  db_playstation2_official_eu :: db
  db_playstation2_official_jp :: db
  db_playstation2_official_ko :: db
  db_playstation2_official_us :: db

record game_info =
  serial_number :: bytes
  region :: string
  title :: string
  disc_type :: string

text \<open>
  Line 217: \<open>sub_entry.upper().replace(b'.', b'').replace(b'_', b'-')\<close>.
\<close>

definition sanitize :: "bytes \<Rightarrow> bytes" where
  "sanitize sub_entry =
     replace_byte (CHR ''_'') ''-'' (replace_byte (CHR ''.'') [] (upper sub_entry))"

text \<open>
  Lines 224--242: the \<open>if/elif\<close> chain over the six region tables. The first table that
  has the key decides, also when the title stored there is empty.
\<close>

definition lookup_title :: "databases \<Rightarrow> bytes \<Rightarrow> string option \<times> string option" where
  "lookup_title dbs serial =
     (case db_playstation2_official_as dbs serial of
        Some t \<Rightarrow> (Some t, Some ''Asia'')
      | None \<Rightarrow>
     (case db_playstation2_official_au dbs serial of
        Some t \<Rightarrow> (Some t, Some ''Australia'')
      | None \<Rightarrow>
     (case db_playstation2_official_eu dbs serial of
        Some t \<Rightarrow> (Some t, Some ''Europe'')
      | None \<Rightarrow>
     (case db_playstation2_official_jp dbs serial of
        Some t \<Rightarrow> (Some t, Some ''Japan'')
      | None \<Rightarrow>
     (case db_playstation2_official_ko dbs serial of
        Some t \<Rightarrow> (Some t, Some ''Korea'')
      | None \<Rightarrow>
     (case db_playstation2_official_us dbs serial of
        Some t \<Rightarrow> (Some t, Some ''USA'')
      | None \<Rightarrow> (None, None)))))))"

text \<open>
  Lines 214--255: the loop over \<open>entries\<close>. An entry is \<open>None\<close> when the binary scanner
  found nothing; \<open>None.upper()\<close> raises \<open>AttributeError\<close>. Line 245 skips an entry whose
  title or region is falsy: absent from every table, or stored as the empty string.
\<close>

fun lookup_entries :: "databases \<Rightarrow> string \<Rightarrow> bytes option list \<Rightarrow> error + game_info" where
  "lookup_entries dbs dt [] = Inl NotFoundInDatabase"
| "lookup_entries dbs dt (None # entries) = Inl AttributeError"
| "lookup_entries dbs dt (Some sub_entry # entries) =
     (if hd (split_byte (CHR ''-'') (sanitize sub_entry)) \<notin> set PREFIXES
      then lookup_entries dbs dt entries
      else (case lookup_title dbs (sanitize sub_entry) of
              (Some t, Some r) \<Rightarrow>
                if t = [] \<or> r = [] then lookup_entries dbs dt entries
                else Inr \<lparr> serial_number = sanitize sub_entry, region = r, title = t,
                           disc_type = dt \<rparr>
            | _ \<Rightarrow> lookup_entries dbs dt entries))"


section \<open>The binary scanner\<close>

text \<open>
  The pattern of line 163 is \<open>prefix + b"[\_|\-][\d|\.]+\;"\<close>. Inside a character class
  the bar is a literal, so the separator class is \<open>_\<close>, \<open>|\<close>, \<open>-\<close> and the body class is
  the ASCII digits, \<open>|\<close> and \<open>.\<close>.
\<close>

definition is_digit :: "char \<Rightarrow> bool" where
  "is_digit c = (48 \<le> byte_val c \<and> byte_val c \<le> 57)"

definition is_sep :: "char \<Rightarrow> bool" where
  "is_sep c = (c = CHR ''_'' \<or> c = CHR ''|'' \<or> c = CHR ''-'')"

definition is_body :: "char \<Rightarrow> bool" where
  "is_body c = (is_digit c \<or> c = CHR ''|'' \<or> c = CHR ''.'')"

text \<open>
  A match of the pattern anchored at the head of \<open>s\<close>: the prefix, one separator, the
  longest run of body bytes, which must be non-empty, and a semicolon right after it.
  The semicolon is not a body byte, so giving back bytes of the greedy run can never
  produce a match where the longest run does not.
\<close>

definition match_at :: "bytes \<Rightarrow> bytes \<Rightarrow> bytes option" where
  "match_at prefix s =
     (if startswith prefix s then
        (case drop (length prefix) s of
           [] \<Rightarrow> None
         | c # rest \<Rightarrow>
             if is_sep c \<and> takeWhile is_body rest \<noteq> []
                \<and> startswith '';'' (dropWhile is_body rest)
             then Some (prefix @ c # takeWhile is_body rest @ '';'')
             else None)
      else None)"

text \<open>\<open>re.search\<close>: the match at the leftmost position that has one.\<close>

fun re_search :: "bytes \<Rightarrow> bytes \<Rightarrow> bytes option" where
  "re_search prefix [] = match_at prefix []"
| "re_search prefix (c # cs) =
     (case match_at prefix (c # cs) of
        Some g \<Rightarrow> Some g
      | None \<Rightarrow> re_search prefix cs)"

text \<open>Lines 162--169: the loop over the prefixes on one buffer.\<close>

fun search_prefixes :: "bytes list \<Rightarrow> bytes \<Rightarrow> bytes option" where
  "search_prefixes [] rom_data = None"
| "search_prefixes (prefix # prefixes) rom_data =
     (case re_search prefix rom_data of
        Some g \<Rightarrow>
          if g \<noteq> [] \<and> \<not> contains ''999.99'' g
          then Some (replace_byte (CHR '';'') []
                      (replace_byte (CHR ''_'') ''-'' (replace_byte (CHR ''.'') [] g)))
          else search_prefixes prefixes rom_data
      | None \<Rightarrow> search_prefixes prefixes rom_data)"

text \<open>\<open>f.seek(pos); f.read(n)\<close> on a file whose content is \<open>file\<close>.\<close>

definition read_at :: "bytes \<Rightarrow> nat \<Rightarrow> nat \<Rightarrow> bytes" where
  "read_at file pos n = take n (drop pos file)"

text \<open>
  Lines 156--159 and 171--172: the position of the next read. \<open>f.tell()\<close> after the read
  is \<open>pos + len(rom_data)\<close>, and \<open>file_size\<close> is the length of the file.
\<close>

definition next_pos :: "bytes \<Rightarrow> nat \<Rightarrow> nat" where
  "next_pos file pos =
     (let tell = pos + length (read_at file pos BUFFER_SIZE);
          use_offset = (tell > MAX_PREFIX_LEN \<and> tell < length file)
      in if use_offset then tell - MAX_PREFIX_LEN else tell)"

function find_in_binary_from :: "bytes \<Rightarrow> nat \<Rightarrow> bytes option" where
  "find_in_binary_from file pos =
     (if read_at file pos BUFFER_SIZE = [] then None
      else (case search_prefixes PREFIXES (read_at file pos BUFFER_SIZE) of
              Some serial \<Rightarrow> Some serial
            | None \<Rightarrow> find_in_binary_from file (next_pos file pos)))"
  by pat_completeness auto
termination
proof (relation "measure (\<lambda>(file, pos). length file - pos)")
  show "wf (measure (\<lambda>(file, pos). length file - pos))" by simp
next
  fix f :: bytes and p :: nat
  assume ne: "read_at f p BUFFER_SIZE \<noteq> []"
  then have lt: "p < length f"
    by (auto simp: read_at_def)
  have "p < next_pos f p"
    using lt
    by (auto simp: next_pos_def read_at_def Let_def BUFFER_SIZE_def MAX_PREFIX_LEN_def min_def)
  with lt show "((f, next_pos f p), (f, p))
        \<in> measure (\<lambda>(file, pos). length file - pos)"
    by simp
qed

declare find_in_binary_from.simps [simp del]

definition find_in_binary :: "bytes \<Rightarrow> bytes option" where
  "find_in_binary file = find_in_binary_from file 0"


section \<open>get\_playstation2\_game\_info\<close>

text \<open>
  \<open>os.path.splitext(file_name)[1]\<close> on a POSIX path: the text from the last dot of the
  last path component, unless that component has nothing but dots before it.
\<close>

definition splitext_ext :: "string \<Rightarrow> string" where
  "splitext_ext p =
     (let base = rev (takeWhile (\<lambda>c. c \<noteq> CHR ''/'') (rev p));
          ext = rev (takeWhile (\<lambda>c. c \<noteq> CHR ''.'') (rev base));
          stem = take (length base - length ext - 1) base
      in if CHR ''.'' \<in> set base \<and> dropWhile (\<lambda>c. c = CHR ''.'') stem \<noteq> []
         then CHR ''.'' # ext else [])"

text \<open>
  The two filesystem readers are taken by their outcome: \<open>udf\<close> is the list of
  \<open>file_identifier\<close>s of \<open>read_udf_file(file_name).all_entries\<close>, or the exception it
  raised; \<open>cd\<close> is the list of paths of \<open>iso9660.ISO9660(file_name).tree()\<close>, a module
  that is not part of this repository, or its exception. Both exceptions are swallowed
  (lines 192 and 202). \<open>file\<close> is the content of the file, read by the binary scanner.
\<close>

definition get_playstation2_game_info ::
  "databases \<Rightarrow> string \<Rightarrow> error + bytes list \<Rightarrow> error + bytes list \<Rightarrow> bytes
     \<Rightarrow> error + game_info" where
  "get_playstation2_game_info dbs file_name udf cd file =
     (if lower (splitext_ext file_name) \<notin> set [''.iso'', ''.bin''] then Inl NotAnIsoOrBin
      else (case udf of
              Inr identifiers \<Rightarrow> lookup_entries dbs ''DVD'' (map Some identifiers)
            | Inl _ \<Rightarrow>
          (case cd of
              Inr paths \<Rightarrow>
                lookup_entries dbs ''CD'' (map (\<lambda>p. Some (lstrip (CHR ''/'') p)) paths)
            | Inl _ \<Rightarrow> lookup_entries dbs ''Binary'' [find_in_binary file])))"


section \<open>read\_udf: integers and the Descriptor Tag\<close>

definition bind :: "error + 'a \<Rightarrow> ('a \<Rightarrow> error + 'b) \<Rightarrow> error + 'b" where
  "bind m f = (case m of Inl e \<Rightarrow> Inl e | Inr v \<Rightarrow> f v)"

definition HEADER_SIZE :: nat where
  "HEADER_SIZE = 1024 * 32"

definition SECTOR_SIZE :: nat where
  "SECTOR_SIZE = 1024 * 2"

definition MAX_INT :: nat where
  "MAX_INT = 2 ^ (4 * 8 - 1) - 1"

text \<open>
  \<open>struct.unpack('B', buffer[start : start + 1])[0]\<close>: the slice is empty when \<open>start\<close> is
  past the end, and \<open>unpack\<close> then raises \<open>struct.error\<close>.
\<close>

definition to_uint8 :: "bytes \<Rightarrow> nat \<Rightarrow> error + nat" where
  "to_uint8 buffer start =
     (if start < length buffer then Inr (byte_val (buffer ! start)) else Inl StructError)"

definition to_uint16 :: "bytes \<Rightarrow> nat \<Rightarrow> error + nat" where
  "to_uint16 buffer start =
     bind (to_uint8 buffer (start + 1)) (\<lambda>hi.
     bind (to_uint8 buffer (start + 0)) (\<lambda>lo.
       Inr (or (and (push_bit 8 hi) 0xFF00) (and (push_bit 0 lo) 0x00FF))))"

definition to_uint32 :: "bytes \<Rightarrow> nat \<Rightarrow> error + nat" where
  "to_uint32 buffer start =
     bind (to_uint8 buffer (start + 3)) (\<lambda>a.
     bind (to_uint8 buffer (start + 2)) (\<lambda>b.
     bind (to_uint8 buffer (start + 1)) (\<lambda>c.
     bind (to_uint8 buffer (start + 0)) (\<lambda>d.
       Inr (or (or (or (and (push_bit 24 a) 0xFF000000) (and (push_bit 16 b) 0x00FF0000))
                   (and (push_bit 8 c) 0x0000FF00))
               (and (push_bit 0 d) 0x000000FF))))))"

text \<open>\<open>BaseTag._assert_size\<close>; \<open>len(buffer) - start\<close> is negative when \<open>start\<close> is past the end.\<close>

definition assert_size :: "nat \<Rightarrow> bytes \<Rightarrow> nat \<Rightarrow> error + unit" where
  "assert_size tag_size buffer start =
     (if tag_size = 0 then Inr ()
      else if int (length buffer) - int start < int tag_size then Inl BufferTooSmall
      else Inr ())"

text \<open>
  \<open>BaseTag._assert_checksum\<close>: the \<open>for\<close> loop over \<open>range(16)\<close> that skips index 4, the
  \<open>while\<close> loop that truncates the sum by repeated subtraction, and the comparison.
\<close>

fun checksum_loop :: "bytes \<Rightarrow> nat \<Rightarrow> nat list \<Rightarrow> nat \<Rightarrow> error + nat" where
  "checksum_loop buffer start [] checksum = Inr checksum"
| "checksum_loop buffer start (i # is) checksum =
     (if i = 4 then checksum_loop buffer start is checksum
      else bind (to_uint8 buffer (start + i)) (\<lambda>b.
             checksum_loop buffer start is (checksum + b)))"

function truncate_uint8 :: "nat \<Rightarrow> nat" where
  "truncate_uint8 checksum =
     (if checksum \<ge> 256 then truncate_uint8 (checksum - 256) else checksum)"
  by pat_completeness auto
termination
  by (relation "measure (\<lambda>checksum. checksum)") auto

declare truncate_uint8.simps [simp del]

definition assert_checksum :: "bytes \<Rightarrow> nat \<Rightarrow> nat \<Rightarrow> error + unit" where
  "assert_checksum buffer start expected_checksum =
     bind (checksum_loop buffer start [0 ..< 16] 0) (\<lambda>checksum.
       if \<not> truncate_uint8 checksum = expected_checksum
       then Inl (ChecksumMismatch (truncate_uint8 checksum) expected_checksum)
       else Inr ())"

text \<open>\<open>BaseTag._assert_reserve_space\<close>: every byte of \<open>buffer[start : start + length]\<close> is zero.\<close>

fun reserve_loop :: "nat \<Rightarrow> bytes \<Rightarrow> error + unit" where
  "reserve_loop start [] = Inr ()"
| "reserve_loop start (n # buf_seg) =
     (if \<not> byte_val n = 0 then Inl (ReserveSpaceNotZero start) else reserve_loop start buf_seg)"

definition assert_reserve_space :: "bytes \<Rightarrow> nat \<Rightarrow> nat \<Rightarrow> error + unit" where
  "assert_reserve_space buffer start len = reserve_loop start (take len (drop start buffer))"

text \<open>The members of the enumeration \<open>TagIdentifier\<close> that the claims name.\<close>

definition TagIdentifier_unknown :: nat where
  "TagIdentifier_unknown = 0"

definition TagIdentifier_AnchorVolumeDescriptorPointer :: nat where
  "TagIdentifier_AnchorVolumeDescriptorPointer = 2"

record DescriptorTag =
  tag_identifier :: nat
  descriptor_version :: nat
  tag_check_sum :: nat
  reserved :: nat
  tag_serial_number :: nat
  descriptor_crc :: nat
  descriptor_crc_length :: nat
  tag_location :: nat

text \<open>\<open>DescriptorTag.__init__\<close> (lines 217--234), in the order of the source.\<close>

definition new_DescriptorTag :: "bytes \<Rightarrow> nat \<Rightarrow> error + DescriptorTag" where
  "new_DescriptorTag buffer start =
     bind (assert_size 16 buffer start) (\<lambda>_.
     bind (to_uint16 buffer (start + 0)) (\<lambda>tid.
     bind (to_uint16 buffer (start + 2)) (\<lambda>ver.
     bind (to_uint8 buffer (start + 4)) (\<lambda>cks.
     bind (to_uint8 buffer (start + 5)) (\<lambda>res.
     bind (to_uint16 buffer (start + 6)) (\<lambda>ser.
     bind (to_uint16 buffer (start + 8)) (\<lambda>crc.
     bind (to_uint16 buffer (start + 10)) (\<lambda>crc_len.
     bind (to_uint32 buffer (start + 12)) (\<lambda>loc.
       if tid = TagIdentifier_unknown then Inl UnknownTagIdentifier
       else
     bind (assert_checksum buffer start cks) (\<lambda>_.
     bind (assert_reserve_space buffer (start + 5) 1) (\<lambda>_.
       Inr \<lparr> tag_identifier = tid, descriptor_version = ver, tag_check_sum = cks,
             reserved = res, tag_serial_number = ser, descriptor_crc = crc,
             descriptor_crc_length = crc_len, tag_location = loc \<rparr>)))))))))))"

text \<open>\<open>ExtentDescriptor.__init__\<close> (lines 239--243).\<close>

record ExtentDescriptor =
  ed_extent_length :: nat
  ed_extent_location :: nat

definition new_ExtentDescriptor :: "bytes \<Rightarrow> nat \<Rightarrow> error + ExtentDescriptor" where
  "new_ExtentDescriptor buffer start =
     bind (assert_size 8 buffer start) (\<lambda>_.
     bind (to_uint32 buffer start) (\<lambda>len.
     bind (to_uint32 buffer (start + 4)) (\<lambda>loc.
       Inr \<lparr> ed_extent_length = len, ed_extent_location = loc \<rparr>)))"

text \<open>\<open>BaseTag._assert_tag_identifier\<close>, on the tag that the caller has just parsed.\<close>

definition assert_tag_identifier :: "DescriptorTag \<Rightarrow> nat \<Rightarrow> error + unit" where
  "assert_tag_identifier tag expected_tag_identifier =
     (if \<not> tag_identifier tag = expected_tag_identifier
      then Inl (UnexpectedTagIdentifier expected_tag_identifier (tag_identifier tag))
      else Inr ())"

text \<open>\<open>AnchorVolumeDescriptorPointer.__init__\<close> (lines 248--258), in the order of the source.\<close>

record AnchorVolumeDescriptorPointer =
  descriptor_tag :: DescriptorTag
  main_volume_descriptor_sequence_extent :: ExtentDescriptor
  reserve_volume_descriptor_sequence_extent :: ExtentDescriptor
  avdp_reserved :: bytes

definition new_AnchorVolumeDescriptorPointer ::
  "bytes \<Rightarrow> nat \<Rightarrow> error + AnchorVolumeDescriptorPointer" where
  "new_AnchorVolumeDescriptorPointer buffer start =
     bind (assert_size 512 buffer start) (\<lambda>_.
     bind (new_DescriptorTag buffer start) (\<lambda>tag.
     bind (assert_tag_identifier tag TagIdentifier_AnchorVolumeDescriptorPointer) (\<lambda>_.
     bind (new_ExtentDescriptor buffer (start + 16)) (\<lambda>main.
     bind (new_ExtentDescriptor buffer (start + 24)) (\<lambda>reserve.
     bind (assert_reserve_space buffer (start + 32) 480) (\<lambda>_.
       Inr \<lparr> descriptor_tag = tag,
             main_volume_descriptor_sequence_extent = main,
             reserve_volume_descriptor_sequence_extent = reserve,
             avdp_reserved = take 480 (drop (start + 32) buffer) \<rparr>))))))"


section \<open>read\_udf: the sector-size probe and the validator\<close>

text \<open>
  \<open>get_sector_size\<close> (lines 818--848): the \<open>for\<close> loop over the candidate sizes; every
  \<open>continue\<close> is a recursive call on the remaining sizes, and the bare \<open>except\<close> swallows
  whatever the tag's constructor raised.
\<close>

fun get_sector_size_loop :: "bytes \<Rightarrow> nat \<Rightarrow> nat list \<Rightarrow> error + nat" where
  "get_sector_size_loop file file_size [] = Inl NoSectorSize"
| "get_sector_size_loop file file_size (sector_size # sizes) =
     (if file_size < 257 * sector_size then get_sector_size_loop file file_size sizes
      else (case new_DescriptorTag (read_at file (256 * sector_size) 16) 0 of
              Inl _ \<Rightarrow> get_sector_size_loop file file_size sizes
            | Inr tag \<Rightarrow>
                if \<not> tag_location tag = 256 then get_sector_size_loop file file_size sizes
                else if \<not> tag_identifier tag = TagIdentifier_AnchorVolumeDescriptorPointer
                then get_sector_size_loop file file_size sizes
                else Inr sector_size))"

definition get_sector_size :: "bytes \<Rightarrow> nat \<Rightarrow> error + nat" where
  "get_sector_size file file_size = get_sector_size_loop file file_size [4096, 2048, 1024, 512]"

text \<open>
  \<open>is_valid_udf\<close> (lines 777--815). The state of the \<open>while\<close> loop is the file position and
  the three flags; the loop ends on a short read or when \<open>is_valid\<close> becomes false.
\<close>

record vrs_flags =
  has_bea :: bool
  has_vsd :: bool
  has_tea :: bool

function is_valid_udf_loop :: "bytes \<Rightarrow> nat \<Rightarrow> vrs_flags \<Rightarrow> error + vrs_flags" where
  "is_valid_udf_loop file pos flags =
     (if length (read_at file pos SECTOR_SIZE) < SECTOR_SIZE then Inr flags
      else
        bind (to_uint8 (read_at file pos SECTOR_SIZE) 0) (\<lambda>structure_type.
        bind (to_uint8 (read_at file pos SECTOR_SIZE) 6) (\<lambda>structure_version.
          if take 5 (drop 1 (read_at file pos SECTOR_SIZE)) \<in> set [''BEA01'']
          then is_valid_udf_loop file (pos + SECTOR_SIZE) (flags\<lparr>has_bea := True\<rparr>)
          else if take 5 (drop 1 (read_at file pos SECTOR_SIZE)) \<in> set [''NSR02'', ''NSR03'']
          then is_valid_udf_loop file (pos + SECTOR_SIZE) (flags\<lparr>has_vsd := True\<rparr>)
          else if take 5 (drop 1 (read_at file pos SECTOR_SIZE)) \<in> set [''TEA01'']
          then is_valid_udf_loop file (pos + SECTOR_SIZE) (flags\<lparr>has_tea := True\<rparr>)
          else if take 5 (drop 1 (read_at file pos SECTOR_SIZE))
                    \<in> set [''BOOT2'', ''CD001'', ''CDW02'']
          then is_valid_udf_loop file (pos + SECTOR_SIZE) flags
          else Inr flags)))"
  by pat_completeness auto
termination
proof (relation "measure (\<lambda>(file, pos, flags). length file - pos)", goal_cases)
  case 1
  show ?case by simp
next
  case (2 f p fl)
  then show ?case by (simp add: read_at_def SECTOR_SIZE_def)
next
  case (3 f p fl)
  then show ?case by (simp add: read_at_def SECTOR_SIZE_def)
next
  case (4 f p fl)
  then show ?case by (simp add: read_at_def SECTOR_SIZE_def)
next
  case (5 f p fl)
  then show ?case by (simp add: read_at_def SECTOR_SIZE_def)
qed

declare is_valid_udf_loop.simps [simp del]

definition is_valid_udf :: "bytes \<Rightarrow> nat \<Rightarrow> error + bool" where
  "is_valid_udf file file_size =
     (if file_size < HEADER_SIZE + SECTOR_SIZE then Inr False
      else bind (is_valid_udf_loop file HEADER_SIZE
                   \<lparr> has_bea = False, has_vsd = False, has_tea = False \<rparr>) (\<lambda>flags.
             Inr (has_bea flags \<and> has_vsd flags \<and> has_tea flags)))"


section \<open>read\_udf: the File Content Buffer\<close>

definition AllocationType_short_descriptors :: nat where
  "AllocationType_short_descriptors = 0"

definition AllocationType_long_descriptors :: nat where
  "AllocationType_long_descriptors = 1"

definition AllocationType_extended_descriptors :: nat where
  "AllocationType_extended_descriptors = 2"

definition AllocationType_embedded :: nat where
  "AllocationType_embedded = 3"

text \<open>The fields of the parsed objects that the File Content Buffer reads.\<close>

record ICBTag =
  file_type :: nat
  allocation_type :: nat

record FileEntry =
  icb_tag :: ICBTag
  information_length :: nat
  allocation_descriptors :: bytes

record PhysicalPartition =
  pp_file :: bytes
  pp_start :: nat
  pp_length :: nat

record Partition =
  physical_partition :: PhysicalPartition
  logical_block_size :: nat

record CookedExtent =
  file_content_offset :: nat
  ce_partition :: nat
  start_pos :: nat
  ce_length :: nat

record ShortAllocationDescriptor =
  extent_location :: nat
  extent_length :: nat
  sad_flags :: nat

record FileContentBuffer =
  partition :: Partition
  file_entry :: FileEntry
  block_size :: nat
  extents :: "CookedExtent list"

text \<open>\<open>ShortAllocationDescriptor.__init__\<close> (lines 575--580); its \<open>size\<close> is 8.\<close>

definition new_ShortAllocationDescriptor :: "bytes \<Rightarrow> nat \<Rightarrow> error + ShortAllocationDescriptor" where
  "new_ShortAllocationDescriptor buffer start =
     bind (assert_size 8 buffer start) (\<lambda>_.
     bind (to_uint32 buffer start) (\<lambda>len.
     bind (to_uint32 buffer (start + 4)) (\<lambda>loc.
       Inr \<lparr> extent_location = loc,
             extent_length = and len 0x3FFFFFFF,
             sad_flags = and (drop_bit 30 len) 0x3 \<rparr>)))"

text \<open>
  \<open>load_extents\<close> (lines 600--625). The \<open>while\<close> loop of the short-descriptor branch
  carries \<open>i\<close>, \<open>file_pos\<close> and the list built so far.
\<close>

function load_short_descriptors ::
  "bytes \<Rightarrow> nat \<Rightarrow> nat \<Rightarrow> nat \<Rightarrow> CookedExtent list \<Rightarrow> error + CookedExtent list" where
  "load_short_descriptors active_buffer bs i file_pos exts =
     (if i < length active_buffer then
        (case new_ShortAllocationDescriptor active_buffer i of
           Inl e \<Rightarrow> Inl e
         | Inr sad \<Rightarrow>
             if extent_length sad = 0 then Inr exts
             else if sad_flags sad \<noteq> 0 then Inl NotImplementedError
             else load_short_descriptors active_buffer bs (i + 8)
                    (file_pos + extent_length sad)
                    (exts @ [\<lparr> file_content_offset = file_pos, ce_partition = MAX_INT,
                               start_pos = extent_location sad * bs,
                               ce_length = extent_length sad \<rparr>]))
      else Inr exts)"
  by pat_completeness auto
termination
  by (relation "measure (\<lambda>(active_buffer, bs, i, file_pos, exts). length active_buffer - i)")
     auto

declare load_short_descriptors.simps [simp del]

definition load_extents :: "FileEntry \<Rightarrow> nat \<Rightarrow> error + CookedExtent list" where
  "load_extents fe bs =
     (if allocation_type (icb_tag fe) = AllocationType_short_descriptors
      then load_short_descriptors (allocation_descriptors fe) bs 0 0 []
      else if allocation_type (icb_tag fe) = AllocationType_embedded
      then Inl NotImplementedError
      else if allocation_type (icb_tag fe) = AllocationType_long_descriptors
      then Inl NotImplementedError
      else Inl NotImplementedError)"

text \<open>\<open>FileContentBuffer.__init__\<close>: the fields are stored and \<open>load_extents\<close> runs.\<close>

definition new_FileContentBuffer ::
  "Partition \<Rightarrow> FileEntry \<Rightarrow> nat \<Rightarrow> error + FileContentBuffer" where
  "new_FileContentBuffer part fe bs =
     bind (load_extents fe bs) (\<lambda>exts.
       Inr \<lparr> partition = part, file_entry = fe, block_size = bs, extents = exts \<rparr>)"

definition capacity :: "FileContentBuffer \<Rightarrow> nat" where
  "capacity fcb = information_length (file_entry fcb)"

text \<open>\<open>find_extent\<close>: the first extent that ends after \<open>pos\<close>, or \<open>None\<close>.\<close>

fun find_extent :: "CookedExtent list \<Rightarrow> nat \<Rightarrow> CookedExtent option" where
  "find_extent [] pos = None"
| "find_extent (extent # exts) pos =
     (if file_content_offset extent + ce_length extent > pos then Some extent
      else find_extent exts pos)"

text \<open>
  \<open>file.seek(new_pos); file.read(to_read)\<close> with Python integers: a negative position is
  an error, a negative count reads to the end of the file.
\<close>

definition seek_read :: "bytes \<Rightarrow> int \<Rightarrow> int \<Rightarrow> error + bytes" where
  "seek_read file new_pos to_read =
     (if new_pos < 0 then Inl SeekError
      else if to_read < 0 then Inr (drop (nat new_pos) file)
      else Inr (take (nat to_read) (drop (nat new_pos) file)))"

text \<open>
  One pass of the loop body of \<open>read_from_extents\<close> (lines 650--663): the bytes that
  \<open>file.read\<close> returns. The class has no attribute \<open>logical_partitions\<close>, so an extent
  whose partition is not \<open>MAX_INT\<close> raises \<open>AttributeError\<close>, as does \<open>None\<close> for the extent.
\<close>

definition read_chunk :: "FileContentBuffer \<Rightarrow> nat \<Rightarrow> nat \<Rightarrow> nat \<Rightarrow> error + bytes" where
  "read_chunk fcb pos total_to_read total_read =
     (case find_extent (extents fcb) (pos + total_read) of
        None \<Rightarrow> Inl AttributeError
      | Some extent \<Rightarrow>
          (let extent_offset = int (pos + total_read) - int (file_content_offset extent);
               to_read = min (int total_to_read - int total_read)
                             (int (ce_length extent) - extent_offset)
           in if ce_partition extent \<noteq> MAX_INT then Inl AttributeError
              else seek_read (pp_file (physical_partition (partition fcb)))
                     (int (start_pos extent) + extent_offset
                        + int (pp_start (physical_partition (partition fcb))))
                     to_read))"

text \<open>
  The \<open>while\<close> loop of \<open>read_from_extents\<close> (lines 649--669). Line 663 assigns the bytes just
  read to \<open>buffer\<close>; the loop carries \<open>total_read\<close> and \<open>buffer\<close>.
\<close>

function read_from_extents_loop ::
  "FileContentBuffer \<Rightarrow> nat \<Rightarrow> nat \<Rightarrow> nat \<Rightarrow> bytes \<Rightarrow> error + bytes" where
  "read_from_extents_loop fcb pos total_to_read total_read buffer =
     (if total_read < total_to_read then
        (case read_chunk fcb pos total_to_read total_read of
           Inl e \<Rightarrow> Inl e
         | Inr new_buffer \<Rightarrow>
             if length new_buffer = 0 then Inr new_buffer
             else read_from_extents_loop fcb pos total_to_read
                    (total_read + length new_buffer) new_buffer)
      else Inr buffer)"
  by pat_completeness auto
termination
  by (relation "measure (\<lambda>(fcb, pos, total_to_read, total_read, buffer).
        total_to_read - total_read)") (auto simp: neq_Nil_conv)

declare read_from_extents_loop.simps [simp del]

definition read_from_extents :: "FileContentBuffer \<Rightarrow> nat \<Rightarrow> nat \<Rightarrow> nat \<Rightarrow> error + bytes" where
  "read_from_extents fcb pos offset count =
     read_from_extents_loop fcb pos (min (capacity fcb - pos) count) 0 []"

text \<open>
  \<open>buffer[lo : hi] = xs\<close> on a list, for non-negative bounds: both bounds are clamped to
  the length of the list.
\<close>

definition slice_assign :: "'a list \<Rightarrow> nat \<Rightarrow> nat \<Rightarrow> 'a list \<Rightarrow> 'a list" where
  "slice_assign buffer lo hi xs =
     take (min lo (length buffer)) buffer @ xs
       @ drop (max (min lo (length buffer)) (min hi (length buffer))) buffer"

text \<open>\<open>FileContentBuffer.read\<close> (lines 631--642).\<close>

definition read :: "FileContentBuffer \<Rightarrow> nat \<Rightarrow> nat \<Rightarrow> nat \<Rightarrow> error + bytes" where
  "read fcb pos offset count =
     (if allocation_type (icb_tag (file_entry fcb)) = AllocationType_embedded then
        (if pos > length (allocation_descriptors (file_entry fcb)) then Inr []
         else Inr (slice_assign [] offset
                     (offset + min (length (allocation_descriptors (file_entry fcb)) - pos) count)
                     (take (min (length (allocation_descriptors (file_entry fcb)) - pos) count)
                        (drop pos (allocation_descriptors (file_entry fcb))))))
      else read_from_extents fcb pos offset count)"


section \<open>Definitions used to state the properties\<close>

text \<open>Region tables for the examples.\<close>

definition example_dbs :: databases where
  "example_dbs =
     \<lparr> db_playstation2_official_as = Map.empty, db_playstation2_official_au = Map.empty,
       db_playstation2_official_eu = Map.empty, db_playstation2_official_jp = Map.empty,
       db_playstation2_official_ko = Map.empty,
       db_playstation2_official_us =
         [''SLUS-20101'' \<mapsto> ''Game A'', ''SIERRA-12345'' \<mapsto> ''Game B'',
          ''Sierra-12345'' \<mapsto> ''Game B''] \<rparr>"

text \<open>
  A file in which the serial \<open>SLUS_201.01;\<close> starts eight bytes before the end of the
  first 10 MiB buffer.
\<close>

definition straddling_file :: bytes where
  "straddling_file = replicate (BUFFER_SIZE - 8) (CHR 0x00) @ ''SLUS_201.01;1''"

text \<open>
  The sum of bytes 0..15 of the 16-byte header at \<open>start\<close>, byte 4 left out, as the
  specification words the checksum.
\<close>

definition spec_tag_bytes_sum :: "bytes \<Rightarrow> nat \<Rightarrow> nat" where
  "spec_tag_bytes_sum buffer start =
     sum_list (map (\<lambda>i. byte_val (buffer ! (start + i))) (filter (\<lambda>i. i \<noteq> 4) [0 ..< 16]))"

text \<open>
  A 16-byte Descriptor Tag of an Anchor Volume Descriptor Pointer at sector 256, with a
  correct checksum, and the same tag with a wrong one.
\<close>

definition example_anchor_tag :: bytes where
  "example_anchor_tag =
     [CHR 0x02, CHR 0x00, CHR 0x02, CHR 0x00, CHR 0x05, CHR 0x00, CHR 0x00, CHR 0x00,
      CHR 0x00, CHR 0x00, CHR 0x00, CHR 0x00, CHR 0x00, CHR 0x01, CHR 0x00, CHR 0x00]"

definition example_bad_tag :: bytes where
  "example_bad_tag =
     [CHR 0x02, CHR 0x00, CHR 0x02, CHR 0x00, CHR 0x06, CHR 0x00, CHR 0x00, CHR 0x00,
      CHR 0x00, CHR 0x00, CHR 0x00, CHR 0x00, CHR 0x00, CHR 0x01, CHR 0x00, CHR 0x00]"

text \<open>
  The acceptance test of the sector-size probe as the specification words it: the file
  holds 257 sectors, the 16 bytes at \<open>256 \<times> size\<close> parse as a Descriptor Tag, its location
  is 256 and its identifier is that of the Anchor Volume Descriptor Pointer.
\<close>

definition spec_probe_accepts :: "bytes \<Rightarrow> nat \<Rightarrow> nat \<Rightarrow> bool" where
  "spec_probe_accepts file file_size sector_size =
     (257 * sector_size \<le> file_size \<and>
      (case new_DescriptorTag (read_at file (256 * sector_size) 16) 0 of
         Inl _ \<Rightarrow> False
       | Inr tag \<Rightarrow> tag_location tag = 256
                   \<and> tag_identifier tag = TagIdentifier_AnchorVolumeDescriptorPointer))"


text \<open>
  The validator as the specification words it. The identifier of a sector is its bytes
  1..5; the scan reads the full 2048-byte sectors that start at offset 32 KiB; a sector
  is recognised when its identifier is one of the seven known markers; the scanned
  sectors are those before the first sector that is not recognised. The image is valid
  when it is long enough and the scanned sectors hold a BEA, an NSR02 or NSR03, and a
  TEA marker.
\<close>

definition sector_ident :: "bytes \<Rightarrow> bytes" where
  "sector_ident sector = take 5 (drop 1 sector)"

definition full_sectors :: "bytes \<Rightarrow> nat \<Rightarrow> bytes list" where
  "full_sectors file pos =
     map (\<lambda>i. read_at file (pos + i * SECTOR_SIZE) SECTOR_SIZE)
       [0 ..< (length file - pos) div SECTOR_SIZE]"

definition recognised :: "bytes \<Rightarrow> bool" where
  "recognised sector =
     (sector_ident sector
        \<in> set [''BEA01'', ''NSR02'', ''NSR03'', ''TEA01'', ''BOOT2'', ''CD001'', ''CDW02''])"

definition scanned_sectors :: "bytes \<Rightarrow> nat \<Rightarrow> bytes list" where
  "scanned_sectors file pos = takeWhile recognised (full_sectors file pos)"

definition spec_is_valid_udf :: "bytes \<Rightarrow> nat \<Rightarrow> bool" where
  "spec_is_valid_udf file file_size =
     (HEADER_SIZE + SECTOR_SIZE \<le> file_size
      \<and> (\<exists>s \<in> set (scanned_sectors file HEADER_SIZE). sector_ident s = ''BEA01'')
      \<and> (\<exists>s \<in> set (scanned_sectors file HEADER_SIZE).
            sector_ident s = ''NSR02'' \<or> sector_ident s = ''NSR03'')
      \<and> (\<exists>s \<in> set (scanned_sectors file HEADER_SIZE). sector_ident s = ''TEA01''))"


text \<open>
  A directory of 4096 bytes stored in two extents of one 2048-byte block each (two short
  allocation descriptors: length 2048 at block 0, length 2048 at block 1) on a partition
  whose first block holds 2048 times \<open>A\<close> and whose second block holds 2048 times \<open>B\<close>;
  and a file entry with four bytes of embedded content.
\<close>

definition example_partition :: Partition where
  "example_partition =
     \<lparr> physical_partition =
         \<lparr> pp_file = replicate 2048 (CHR ''A'') @ replicate 2048 (CHR ''B''),
           pp_start = 0, pp_length = 4096 \<rparr>,
       logical_block_size = 2048 \<rparr>"

definition example_short_entry :: FileEntry where
  "example_short_entry =
     \<lparr> icb_tag = \<lparr> file_type = 4, allocation_type = 0 \<rparr>,
       information_length = 4096,
       allocation_descriptors =
         [CHR 0x00, CHR 0x08, CHR 0x00, CHR 0x00, CHR 0x00, CHR 0x00, CHR 0x00, CHR 0x00,
          CHR 0x00, CHR 0x08, CHR 0x00, CHR 0x00, CHR 0x01, CHR 0x00, CHR 0x00, CHR 0x00] \<rparr>"

definition example_short_extents :: "CookedExtent list" where
  "example_short_extents =
     [\<lparr> file_content_offset = 0, ce_partition = MAX_INT, start_pos = 0, ce_length = 2048 \<rparr>,
      \<lparr> file_content_offset = 2048, ce_partition = MAX_INT, start_pos = 2048,
        ce_length = 2048 \<rparr>]"

definition example_short_buffer :: FileContentBuffer where
  "example_short_buffer =
     \<lparr> partition = example_partition, file_entry = example_short_entry, block_size = 2048,
       extents = example_short_extents \<rparr>"

definition example_embedded_entry :: FileEntry where
  "example_embedded_entry =
     \<lparr> icb_tag = \<lparr> file_type = 4, allocation_type = 3 \<rparr>,
       information_length = 4,
       allocation_descriptors = ''data'' \<rparr>"


text \<open>
  A 512-byte sector that starts with the example tag and is zero elsewhere; an image of
  257 sectors of 2048 bytes whose sector 256 is such a sector; and an image whose
  volume recognition sequence, after 32 KiB of zeros, is a BEA01, an NSR02 and a TEA01
  sector.
\<close>

definition example_anchor_sector :: bytes where
  "example_anchor_sector = example_anchor_tag @ replicate 496 (CHR 0x00)"

definition example_anchor_image :: bytes where
  "example_anchor_image =
     replicate (256 * 2048) (CHR 0x00) @ example_anchor_tag @ replicate 2032 (CHR 0x00)"

definition vrs_sector :: "bytes \<Rightarrow> bytes" where
  "vrs_sector ident = CHR 0x00 # ident @ replicate 2042 (CHR 0x00)"

definition example_vrs_image :: bytes where
  "example_vrs_image =
     replicate 32768 (CHR 0x00) @ vrs_sector ''BEA01'' @ vrs_sector ''NSR02''
       @ vrs_sector ''TEA01''"


section \<open>Facts about byte strings\<close>

lemma byte_val_inj: "byte_val a = byte_val b \<longleftrightarrow> a = b"
  by (simp add: byte_val_def)

lemma upper_byte_val:
  "byte_val (upper_byte c) =
     (if 97 \<le> byte_val c \<and> byte_val c \<le> 122 then byte_val c - 32 else byte_val c)"
  by (auto simp add: upper_byte_def byte_val_def)

lemma upper_byte_idem: "upper_byte (upper_byte c) = upper_byte c"
  by (subst byte_val_inj [symmetric]) (auto simp add: upper_byte_val)

lemma upper_byte_eq_dot: "upper_byte c = CHR ''.'' \<longleftrightarrow> c = CHR ''.''"
  by (subst (1 2) byte_val_inj [symmetric]) (auto simp add: upper_byte_val, auto simp: byte_val_def)

lemma upper_byte_eq_underscore: "upper_byte c = CHR ''_'' \<longleftrightarrow> c = CHR ''_''"
  by (subst (1 2) byte_val_inj [symmetric]) (auto simp add: upper_byte_val, auto simp: byte_val_def)

lemma upper_byte_dash: "upper_byte (CHR ''-'') = CHR ''-''"
  by (simp add: upper_byte_def byte_val_def)

lemma replace_byte_drop: "replace_byte old [] s = filter (\<lambda>c. c \<noteq> old) s"
  by (induction s) auto

lemma replace_byte_map: "replace_byte old [new] s = map (\<lambda>c. if c = old then new else c) s"
  by (induction s) auto

lemma sanitize_eq:
  "sanitize s = map (\<lambda>c. if c = CHR ''_'' then CHR ''-'' else c)
                  (filter (\<lambda>c. c \<noteq> CHR ''.'') (map upper_byte s))"
  by (simp add: sanitize_def upper_def replace_byte_drop replace_byte_map)

lemma sanitize_Nil: "sanitize [] = []"
  by (simp add: sanitize_eq)

lemma sanitize_Cons:
  "sanitize (c # s) =
     (if c = CHR ''.'' then sanitize s
      else (if c = CHR ''_'' then CHR ''-'' else upper_byte c) # sanitize s)"
  by (simp add: sanitize_eq upper_byte_eq_dot upper_byte_eq_underscore)

lemma split_byte_ne: "split_byte sep s \<noteq> []"
  by (induction s) (auto split: list.splits)

lemma hd_split_byte: "hd (split_byte sep s) = takeWhile (\<lambda>c. c \<noteq> sep) s"
  using split_byte_ne [of sep]
  by (induction s) (auto split: list.splits)

section \<open>The lookup loop\<close>

lemma no_prefix_SIERRA: "p \<in> set PREFIXES \<Longrightarrow> take 6 p \<noteq> ''SIERRA''"
  by (auto simp: PREFIXES_def)

lemma sanitize_Sierra: "sanitize (''Sierra'' @ rest) = ''SIERRA'' @ sanitize rest"
  by (simp add: sanitize_Cons upper_byte_def byte_val_def char_of_def bit_iff_odd)

lemma sierra_segment:
  "take 6 (hd (split_byte (CHR ''-'') (sanitize (''Sierra'' @ rest)))) = ''SIERRA''"
  by (simp only: hd_split_byte sanitize_Sierra) simp

lemma sierra_skip:
  "lookup_entries dbs dt (Some (''Sierra'' @ rest) # entries) = lookup_entries dbs dt entries"
  using no_prefix_SIERRA sierra_segment [of rest] by auto

lemma sierra_first_segment:
  "sep = CHR ''_'' \<or> sep = CHR ''-'' \<Longrightarrow>
   hd (split_byte (CHR ''-'') (sanitize (''Sierra'' @ sep # rest))) = ''SIERRA''"
  by (simp only: hd_split_byte sanitize_Sierra) (auto simp: sanitize_Cons upper_byte_dash)

lemma mixed_case_prefixes: "filter (\<lambda>p. upper p \<noteq> p) PREFIXES = [''Sierra'']"
  by code_simp

lemma SIERRA_not_prefix: "''SIERRA'' \<notin> set PREFIXES"
  by (simp add: PREFIXES_def)

section \<open>The scanner on one buffer\<close>

lemma find_in_binary_small:
  assumes "length file \<le> BUFFER_SIZE"
  shows "find_in_binary file = (if file = [] then None else search_prefixes PREFIXES file)"
proof (cases "file = []")
  case True
  then show ?thesis
    by (simp add: find_in_binary_def find_in_binary_from.simps [of "[]"] read_at_def)
next
  case False
  have r: "read_at file 0 BUFFER_SIZE = file"
    using assms by (simp add: read_at_def)
  have n: "next_pos file 0 = length file"
    by (simp add: next_pos_def r Let_def)
  have e: "find_in_binary_from file (length file) = None"
    by (subst find_in_binary_from.simps) (simp add: read_at_def)
  show ?thesis
    unfolding find_in_binary_def
    by (subst find_in_binary_from.simps) (simp add: r n e False split: option.splits)
qed

lemma match_at_other_head:
  "prefix \<noteq> [] \<Longrightarrow> hd prefix \<noteq> c \<Longrightarrow> match_at prefix (c # s) = None"
  by (cases prefix) (auto simp: match_at_def)

lemma re_search_padding:
  "prefix \<noteq> [] \<Longrightarrow> hd prefix \<noteq> z \<Longrightarrow>
   re_search prefix (replicate n z @ s) = re_search prefix s"
  by (induction n) (auto simp: match_at_other_head)

lemma search_prefixes_padding:
  "(\<And>p. p \<in> set ps \<Longrightarrow> p \<noteq> [] \<and> hd p \<noteq> z) \<Longrightarrow>
   search_prefixes ps (replicate n z @ s) = search_prefixes ps s"
proof (induction ps)
  case Nil
  show ?case by simp
next
  case (Cons a ps)
  have a: "re_search a (replicate n z @ s) = re_search a s"
    using Cons.prems [of a] by (simp add: re_search_padding)
  have r: "search_prefixes ps (replicate n z @ s) = search_prefixes ps s"
    using Cons.IH Cons.prems by simp
  show ?case by (simp only: search_prefixes.simps a r)
qed

lemma PREFIXES_heads: "p \<in> set PREFIXES \<Longrightarrow> p \<noteq> [] \<and> hd p \<noteq> CHR 0x00"
  by (auto simp: PREFIXES_def)

lemma search_head_of_serial: "search_prefixes PREFIXES ''SLUS_201'' = None"
  by code_simp

lemma search_tail_of_serial: "search_prefixes PREFIXES ''US_201.01;1'' = None"
  by code_simp

lemma search_whole_serial: "search_prefixes PREFIXES ''SLUS_201.01;1'' = Some ''SLUS-20101''"
  by code_simp

lemma straddling_first_read:
  "read_at straddling_file 0 BUFFER_SIZE = replicate (BUFFER_SIZE - 8) (CHR 0x00) @ ''SLUS_201''"
  by (simp add: read_at_def straddling_file_def BUFFER_SIZE_def)

lemma straddling_next_pos: "next_pos straddling_file 0 = BUFFER_SIZE - 6"
  by (simp add: next_pos_def straddling_first_read Let_def MAX_PREFIX_LEN_def)
     (simp add: straddling_file_def BUFFER_SIZE_def)

lemma straddling_second_read:
  "read_at straddling_file (BUFFER_SIZE - 6) BUFFER_SIZE = ''US_201.01;1''"
  by (simp add: read_at_def straddling_file_def BUFFER_SIZE_def)

lemma straddling_second_next:
  "next_pos straddling_file (BUFFER_SIZE - 6) = length straddling_file"
  by (simp add: next_pos_def straddling_second_read Let_def MAX_PREFIX_LEN_def)
     (simp add: straddling_file_def BUFFER_SIZE_def)

lemma straddling_missed: "find_in_binary straddling_file = None"
proof -
  have 3: "find_in_binary_from straddling_file (length straddling_file) = None"
    by (subst find_in_binary_from.simps) (simp add: read_at_def)
  have 2: "find_in_binary_from straddling_file (BUFFER_SIZE - 6) = None"
    by (subst find_in_binary_from.simps)
       (simp add: straddling_second_read straddling_second_next search_tail_of_serial 3)
  have s1: "search_prefixes PREFIXES (replicate (BUFFER_SIZE - 8) (CHR 0x00) @ ''SLUS_201'') = None"
    using search_prefixes_padding [of PREFIXES "CHR 0x00" "BUFFER_SIZE - 8" "''SLUS_201''"]
      PREFIXES_heads search_head_of_serial by simp
  show ?thesis
    unfolding find_in_binary_def
    by (subst find_in_binary_from.simps)
       (simp add: straddling_first_read straddling_next_pos s1 2)
qed

lemma straddling_whole: "search_prefixes PREFIXES straddling_file = Some ''SLUS-20101''"
  unfolding straddling_file_def
  using search_prefixes_padding [of PREFIXES "CHR 0x00" "BUFFER_SIZE - 8" "''SLUS_201.01;1''"]
      PREFIXES_heads search_whole_serial by simp

lemma ext_bin: "lower (splitext_ext ''game.bin'') = ''.bin''"
  by code_simp

lemma ext_iso: "lower (splitext_ext ''game.iso'') = ''.iso''"
  by code_simp

lemma scan_sierra: "search_prefixes PREFIXES ''Sierra_123.45;1'' = Some ''Sierra-12345''"
  by code_simp

section \<open>Facts about the Descriptor Tag\<close>

lemma bind_Inr [simp]: "bind (Inr v) f = f v"
  by (simp add: bind_def)

lemma bind_Inl [simp]: "bind (Inl e) f = Inl e"
  by (simp add: bind_def)

lemma bind_eq_Inr: "bind m f = Inr y \<longleftrightarrow> (\<exists>v. m = Inr v \<and> f v = Inr y)"
  by (cases m) auto

lemma to_uint8_Inr: "start < length buffer \<Longrightarrow> to_uint8 buffer start = Inr (byte_val (buffer ! start))"
  by (simp add: to_uint8_def)

lemma truncate_uint8_mod: "truncate_uint8 n = n mod 256"
proof (induction n rule: truncate_uint8.induct)
  case (1 checksum)
  show ?case
  proof (cases "checksum \<ge> 256")
    case True
    then have "truncate_uint8 checksum = (checksum - 256) mod 256"
      using 1 by (subst truncate_uint8.simps) simp
    also have "\<dots> = checksum mod 256"
      using True by (metis le_mod_geq)
    finally show ?thesis .
  next
    case False
    then show ?thesis by (subst truncate_uint8.simps) simp
  qed
qed

lemma checksum_loop_sum:
  "(\<And>i. i \<in> set is \<Longrightarrow> start + i < length buffer) \<Longrightarrow>
   checksum_loop buffer start is acc =
     Inr (acc + sum_list (map (\<lambda>i. byte_val (buffer ! (start + i))) (filter (\<lambda>i. i \<noteq> 4) is)))"
  by (induction "is" arbitrary: acc) (auto simp: to_uint8_Inr)

lemma checksum_loop_16:
  "start + 16 \<le> length buffer \<Longrightarrow>
   checksum_loop buffer start [0 ..< 16] 0 = Inr (spec_tag_bytes_sum buffer start)"
  unfolding spec_tag_bytes_sum_def by (subst checksum_loop_sum) auto

lemma assert_size_Inr: "assert_size n buffer start = Inr u \<longleftrightarrow> n = 0 \<or> start + n \<le> length buffer"
  by (auto simp: assert_size_def)

lemma assert_checksum_iff:
  "start + 16 \<le> length buffer \<Longrightarrow>
   assert_checksum buffer start expected = Inr u \<longleftrightarrow> spec_tag_bytes_sum buffer start mod 256 = expected"
  by (simp add: assert_checksum_def checksum_loop_16 truncate_uint8_mod)

lemma new_DescriptorTag_Inr:
  assumes "new_DescriptorTag buffer start = Inr tag"
  shows "start + 16 \<le> length buffer"
    and "tag_check_sum tag = byte_val (buffer ! (start + 4))"
    and "spec_tag_bytes_sum buffer start mod 256 = tag_check_sum tag"
proof -
  from assms obtain u where "assert_size 16 buffer start = Inr u"
    by (auto simp: new_DescriptorTag_def bind_eq_Inr)
  then show len: "start + 16 \<le> length buffer"
    by (simp add: assert_size_Inr)
  from assms len obtain u' where
    c: "assert_checksum buffer start (byte_val (buffer ! (start + 4))) = Inr u'"
    and t: "tag_check_sum tag = byte_val (buffer ! (start + 4))"
    by (auto simp: new_DescriptorTag_def bind_eq_Inr to_uint8_Inr split: if_splits)
  show "tag_check_sum tag = byte_val (buffer ! (start + 4))" by (rule t)
  from c len show "spec_tag_bytes_sum buffer start mod 256 = tag_check_sum tag"
    by (simp add: assert_checksum_iff t)
qed

lemma new_DescriptorTag_checksum_fails:
  assumes "spec_tag_bytes_sum buffer start mod 256 \<noteq> byte_val (buffer ! (start + 4))"
  shows "\<exists>e. new_DescriptorTag buffer start = Inl e"
proof (cases "new_DescriptorTag buffer start")
  case (Inl e)
  then show ?thesis by blast
next
  case (Inr tag)
  from new_DescriptorTag_Inr [OF Inr] assms show ?thesis by simp
qed

subsection \<open>The example tags\<close>

lemma byte_val_examples:
  "byte_val (CHR 0x00) = 0" "byte_val (CHR 0x01) = 1" "byte_val (CHR 0x02) = 2"
  "byte_val (CHR 0x05) = 5" "byte_val (CHR 0x06) = 6" "byte_val (CHR 0x08) = 8"
  by (simp_all add: byte_val_def)

lemma anchor_tag_sum: "spec_tag_bytes_sum example_anchor_tag 0 mod 256 = 5"
  by code_simp

lemma bad_tag_sum: "spec_tag_bytes_sum example_bad_tag 0 mod 256 = 5"
  by code_simp

lemma anchor_tag_length: "0 + 16 \<le> length example_anchor_tag"
  by (simp add: example_anchor_tag_def)

lemma bad_tag_length: "0 + 16 \<le> length example_bad_tag"
  by (simp add: example_bad_tag_def)

lemma anchor_tag_checksum: "assert_checksum example_anchor_tag 0 5 = Inr ()"
  by (simp add: assert_checksum_def checksum_loop_16 [OF anchor_tag_length]
        truncate_uint8_mod anchor_tag_sum)

lemma bad_tag_checksum: "assert_checksum example_bad_tag 0 6 = Inl (ChecksumMismatch 5 6)"
  by (simp add: assert_checksum_def checksum_loop_16 [OF bad_tag_length]
        truncate_uint8_mod bad_tag_sum)

lemma anchor_tag_fields:
  "assert_size 16 example_anchor_tag 0 = Inr ()"
  "to_uint16 example_anchor_tag (0 + 0) = Inr 2"
  "to_uint16 example_anchor_tag (0 + 2) = Inr 2"
  "to_uint8 example_anchor_tag (0 + 4) = Inr 5"
  "to_uint8 example_anchor_tag (0 + 5) = Inr 0"
  "to_uint16 example_anchor_tag (0 + 6) = Inr 0"
  "to_uint16 example_anchor_tag (0 + 8) = Inr 0"
  "to_uint16 example_anchor_tag (0 + 10) = Inr 0"
  "to_uint32 example_anchor_tag (0 + 12) = Inr 256"
  "assert_reserve_space example_anchor_tag (0 + 5) 1 = Inr ()"
  by (simp_all add: example_anchor_tag_def assert_size_def to_uint16_def to_uint32_def
        to_uint8_def byte_val_examples assert_reserve_space_def)

lemma bad_tag_fields:
  "assert_size 16 example_bad_tag 0 = Inr ()"
  "to_uint16 example_bad_tag (0 + 0) = Inr 2"
  "to_uint16 example_bad_tag (0 + 2) = Inr 2"
  "to_uint8 example_bad_tag (0 + 4) = Inr 6"
  "to_uint8 example_bad_tag (0 + 5) = Inr 0"
  "to_uint16 example_bad_tag (0 + 6) = Inr 0"
  "to_uint16 example_bad_tag (0 + 8) = Inr 0"
  "to_uint16 example_bad_tag (0 + 10) = Inr 0"
  "to_uint32 example_bad_tag (0 + 12) = Inr 256"
  by (simp_all add: example_bad_tag_def assert_size_def to_uint16_def to_uint32_def
        to_uint8_def byte_val_examples)

lemma anchor_tag_parses:
  "new_DescriptorTag example_anchor_tag 0 =
     Inr \<lparr> tag_identifier = 2, descriptor_version = 2, tag_check_sum = 5, reserved = 0,
           tag_serial_number = 0, descriptor_crc = 0, descriptor_crc_length = 0,
           tag_location = 256 \<rparr>"
  unfolding new_DescriptorTag_def
  by (simp only: anchor_tag_fields anchor_tag_checksum bind_Inr)
     (simp add: TagIdentifier_unknown_def)

lemma bad_tag_fails: "new_DescriptorTag example_bad_tag 0 = Inl (ChecksumMismatch 5 6)"
  unfolding new_DescriptorTag_def
  by (simp only: bad_tag_fields bad_tag_checksum bind_Inr)
     (simp add: TagIdentifier_unknown_def)

lemma bad_tag_byte4: "byte_val (example_bad_tag ! (0 + 4)) = 6"
  by (simp add: example_bad_tag_def byte_val_examples)


section \<open>Facts about the validator\<close>

lemma short_read_iff:
  "length (read_at file pos SECTOR_SIZE) < SECTOR_SIZE \<longleftrightarrow> length file < pos + SECTOR_SIZE"
  by (auto simp: read_at_def SECTOR_SIZE_def)

lemma full_sectors_Nil:
  assumes "length file < pos + SECTOR_SIZE"
  shows "full_sectors file pos = []"
proof -
  have "0 < SECTOR_SIZE"
    by (simp add: SECTOR_SIZE_def)
  with assms have "length file - pos < SECTOR_SIZE"
    by arith
  then show ?thesis
    by (simp add: full_sectors_def)
qed

lemma full_sectors_Cons:
  assumes "pos + SECTOR_SIZE \<le> length file"
  shows "full_sectors file pos
           = read_at file pos SECTOR_SIZE # full_sectors file (pos + SECTOR_SIZE)"
proof -
  have S: "0 < SECTOR_SIZE" by (simp add: SECTOR_SIZE_def)
  have "(length file - pos) div SECTOR_SIZE
          = Suc ((length file - (pos + SECTOR_SIZE)) div SECTOR_SIZE)"
    using assms S by (simp add: le_div_geq)
  then have "[0 ..< (length file - pos) div SECTOR_SIZE]
          = 0 # map Suc [0 ..< (length file - (pos + SECTOR_SIZE)) div SECTOR_SIZE]"
    by (simp add: upt_conv_Cons map_Suc_upt)
  then show ?thesis
    by (simp add: full_sectors_def ac_simps)
qed

lemma is_valid_udf_loop_step:
  "is_valid_udf_loop file pos fl =
     (if length file < pos + SECTOR_SIZE then Inr fl
      else if sector_ident (read_at file pos SECTOR_SIZE) = ''BEA01''
      then is_valid_udf_loop file (pos + SECTOR_SIZE) (fl\<lparr>has_bea := True\<rparr>)
      else if sector_ident (read_at file pos SECTOR_SIZE) = ''NSR02''
            \<or> sector_ident (read_at file pos SECTOR_SIZE) = ''NSR03''
      then is_valid_udf_loop file (pos + SECTOR_SIZE) (fl\<lparr>has_vsd := True\<rparr>)
      else if sector_ident (read_at file pos SECTOR_SIZE) = ''TEA01''
      then is_valid_udf_loop file (pos + SECTOR_SIZE) (fl\<lparr>has_tea := True\<rparr>)
      else if recognised (read_at file pos SECTOR_SIZE)
      then is_valid_udf_loop file (pos + SECTOR_SIZE) fl
      else Inr fl)"
proof (cases "length file < pos + SECTOR_SIZE")
  case True
  then show ?thesis
    by (subst is_valid_udf_loop.simps) (simp add: short_read_iff)
next
  case False
  then have len: "length (read_at file pos SECTOR_SIZE) = SECTOR_SIZE"
    by (simp add: read_at_def)
  have u0: "to_uint8 (read_at file pos SECTOR_SIZE) 0
              = Inr (byte_val (read_at file pos SECTOR_SIZE ! 0))"
    by (simp add: to_uint8_def len) (simp add: SECTOR_SIZE_def)
  have u6: "to_uint8 (read_at file pos SECTOR_SIZE) 6
              = Inr (byte_val (read_at file pos SECTOR_SIZE ! 6))"
    by (simp add: to_uint8_def len) (simp add: SECTOR_SIZE_def)
  show ?thesis
    using False
    by (subst is_valid_udf_loop.simps)
       (auto simp add: short_read_iff u0 u6 bind_def sector_ident_def recognised_def)
qed

lemma scanned_sectors_step:
  "scanned_sectors file pos =
     (if length file < pos + SECTOR_SIZE then []
      else if recognised (read_at file pos SECTOR_SIZE)
      then read_at file pos SECTOR_SIZE # scanned_sectors file (pos + SECTOR_SIZE)
      else [])"
  by (simp add: scanned_sectors_def full_sectors_Nil full_sectors_Cons)

lemma recognised_markers:
  "sector_ident s = ''BEA01'' \<Longrightarrow> recognised s"
  "sector_ident s = ''NSR02'' \<Longrightarrow> recognised s"
  "sector_ident s = ''NSR03'' \<Longrightarrow> recognised s"
  "sector_ident s = ''TEA01'' \<Longrightarrow> recognised s"
  by (simp_all add: recognised_def)

lemma is_valid_udf_loop_flags:
  "is_valid_udf_loop file pos fl =
     Inr \<lparr> has_bea = (has_bea fl
                       \<or> (\<exists>s \<in> set (scanned_sectors file pos). sector_ident s = ''BEA01'')),
           has_vsd = (has_vsd fl
                       \<or> (\<exists>s \<in> set (scanned_sectors file pos).
                             sector_ident s = ''NSR02'' \<or> sector_ident s = ''NSR03'')),
           has_tea = (has_tea fl
                       \<or> (\<exists>s \<in> set (scanned_sectors file pos). sector_ident s = ''TEA01'')) \<rparr>"
proof (induction "length file - pos" arbitrary: pos fl rule: less_induct)
  case less
  show ?case
  proof (cases "length file < pos + SECTOR_SIZE")
    case True
    then show ?thesis
      by (subst is_valid_udf_loop_step, subst (1 2 3) scanned_sectors_step) simp
  next
    case False
    then have "length file - (pos + SECTOR_SIZE) < length file - pos"
      by (simp add: SECTOR_SIZE_def)
    note IH = less [OF this]
    show ?thesis
      using False
      by (subst is_valid_udf_loop_step, subst (1 2 3) scanned_sectors_step)
         (auto simp add: IH recognised_markers)
  qed
qed


section \<open>Facts about the File Content Buffer\<close>

lemma embedded_not_constructed:
  "allocation_type (icb_tag fe) = AllocationType_embedded \<Longrightarrow>
   new_FileContentBuffer part fe bs = Inl NotImplementedError"
  by (simp add: new_FileContentBuffer_def load_extents_def AllocationType_embedded_def
        AllocationType_short_descriptors_def)

lemma read_embedded:
  "allocation_type (icb_tag (file_entry fcb)) = AllocationType_embedded \<Longrightarrow>
   read fcb pos offset n =
     Inr (take (min n (length (allocation_descriptors (file_entry fcb)) - pos))
            (drop pos (allocation_descriptors (file_entry fcb))))"
  by (simp add: read_def slice_assign_def min.commute)

lemma example_sads:
  "new_ShortAllocationDescriptor (allocation_descriptors example_short_entry) 0
     = Inr \<lparr> extent_location = 0, extent_length = 2048, sad_flags = 0 \<rparr>"
  "new_ShortAllocationDescriptor (allocation_descriptors example_short_entry) (0 + 8)
     = Inr \<lparr> extent_location = 1, extent_length = 2048, sad_flags = 0 \<rparr>"
  by (simp_all add: new_ShortAllocationDescriptor_def example_short_entry_def assert_size_def
        to_uint32_def to_uint8_def byte_val_examples)

lemma example_load:
  "load_extents example_short_entry 2048 = Inr example_short_extents"
proof -
  have len: "length (allocation_descriptors example_short_entry) = 16"
    by (simp add: example_short_entry_def)
  have al: "allocation_type (icb_tag example_short_entry) = 0"
    by (simp add: example_short_entry_def)
  show ?thesis
    unfolding load_extents_def
    apply (simp add: al AllocationType_short_descriptors_def)
    apply (subst load_short_descriptors.simps, simp add: len example_sads(1))
    apply (subst load_short_descriptors.simps, simp add: len example_sads(2) [simplified])
    apply (subst load_short_descriptors.simps, simp add: len example_short_extents_def)
    done
qed

lemma example_construct:
  "new_FileContentBuffer example_partition example_short_entry 2048 = Inr example_short_buffer"
  by (simp add: new_FileContentBuffer_def example_load example_short_buffer_def)

lemma example_chunks:
  "read_chunk example_short_buffer 0 4096 0 = Inr (replicate 2048 (CHR ''A''))"
  "read_chunk example_short_buffer 0 4096 2048 = Inr (replicate 2048 (CHR ''B''))"
  by (simp_all add: read_chunk_def example_short_buffer_def example_short_extents_def
        example_partition_def seek_read_def Let_def)

lemma example_read:
  "read example_short_buffer 0 0 4096 = Inr (replicate 2048 (CHR ''B''))"
proof -
  have al: "allocation_type (icb_tag (file_entry example_short_buffer)) = 0"
    by (simp add: example_short_buffer_def example_short_entry_def)
  have cap: "capacity example_short_buffer = 4096"
    by (simp add: capacity_def example_short_buffer_def example_short_entry_def)
  have 3: "read_from_extents_loop example_short_buffer 0 4096 4096 (replicate 2048 (CHR ''B''))
             = Inr (replicate 2048 (CHR ''B''))"
    by (subst read_from_extents_loop.simps) simp
  have 2: "read_from_extents_loop example_short_buffer 0 4096 2048 (replicate 2048 (CHR ''A''))
             = Inr (replicate 2048 (CHR ''B''))"
    by (subst read_from_extents_loop.simps) (simp add: example_chunks 3)
  have 1: "read_from_extents_loop example_short_buffer 0 4096 0 []
             = Inr (replicate 2048 (CHR ''B''))"
    by (subst read_from_extents_loop.simps) (simp add: example_chunks 2)
  show ?thesis
    by (simp add: read_def al AllocationType_embedded_def read_from_extents_def cap 1)
qed


section \<open>Facts about the Anchor Volume Descriptor Pointer\<close>

lemma anchor_pointer_tag:
  "new_AnchorVolumeDescriptorPointer buffer start = Inr avdp \<Longrightarrow>
   new_DescriptorTag buffer start = Inr (descriptor_tag avdp)"
  by (auto simp: new_AnchorVolumeDescriptorPointer_def bind_eq_Inr)

lemma anchor_pointer_checksum:
  "new_AnchorVolumeDescriptorPointer buffer start = Inr avdp \<Longrightarrow>
   spec_tag_bytes_sum buffer start mod 256 = tag_check_sum (descriptor_tag avdp)"
  using new_DescriptorTag_Inr(3) [OF anchor_pointer_tag] .

lemma reserve_loop_zeros: "reserve_loop start (replicate n (CHR 0x00)) = Inr ()"
  by (induction n) (simp_all add: byte_val_examples)

lemma anchor_sector_length: "0 + 16 \<le> length example_anchor_sector"
  by (simp add: example_anchor_sector_def)

lemma anchor_sector_sum: "spec_tag_bytes_sum example_anchor_sector 0 mod 256 = 5"
  by (simp add: spec_tag_bytes_sum_def example_anchor_sector_def example_anchor_tag_def
        byte_val_examples upt_conv_Cons)

lemma anchor_sector_checksum: "assert_checksum example_anchor_sector 0 5 = Inr ()"
  by (simp add: assert_checksum_def checksum_loop_16 [OF anchor_sector_length]
        truncate_uint8_mod anchor_sector_sum)

lemma anchor_sector_fields:
  "assert_size 512 example_anchor_sector 0 = Inr ()"
  "assert_size 16 example_anchor_sector 0 = Inr ()"
  "to_uint16 example_anchor_sector (0 + 0) = Inr 2"
  "to_uint16 example_anchor_sector (0 + 2) = Inr 2"
  "to_uint8 example_anchor_sector (0 + 4) = Inr 5"
  "to_uint8 example_anchor_sector (0 + 5) = Inr 0"
  "to_uint16 example_anchor_sector (0 + 6) = Inr 0"
  "to_uint16 example_anchor_sector (0 + 8) = Inr 0"
  "to_uint16 example_anchor_sector (0 + 10) = Inr 0"
  "to_uint32 example_anchor_sector (0 + 12) = Inr 256"
  "assert_reserve_space example_anchor_sector (0 + 5) 1 = Inr ()"
  by (simp_all add: example_anchor_sector_def example_anchor_tag_def assert_size_def
        to_uint16_def to_uint32_def to_uint8_def byte_val_examples assert_reserve_space_def)

lemma anchor_sector_tag:
  "new_DescriptorTag example_anchor_sector 0 =
     Inr \<lparr> tag_identifier = 2, descriptor_version = 2, tag_check_sum = 5, reserved = 0,
           tag_serial_number = 0, descriptor_crc = 0, descriptor_crc_length = 0,
           tag_location = 256 \<rparr>"
  unfolding new_DescriptorTag_def
  by (simp only: anchor_sector_fields anchor_sector_checksum bind_Inr)
     (simp add: TagIdentifier_unknown_def)

lemma anchor_sector_extents:
  "new_ExtentDescriptor example_anchor_sector (0 + 16)
     = Inr \<lparr> ed_extent_length = 0, ed_extent_location = 0 \<rparr>"
  "new_ExtentDescriptor example_anchor_sector (0 + 24)
     = Inr \<lparr> ed_extent_length = 0, ed_extent_location = 0 \<rparr>"
  by (simp_all add: new_ExtentDescriptor_def example_anchor_sector_def example_anchor_tag_def
        assert_size_def to_uint32_def to_uint8_def nth_append byte_val_examples)

lemma anchor_sector_reserve:
  "assert_reserve_space example_anchor_sector (0 + 32) 480 = Inr ()"
  by (simp add: assert_reserve_space_def example_anchor_sector_def example_anchor_tag_def
        reserve_loop_zeros)

lemma anchor_sector_parses:
  "new_AnchorVolumeDescriptorPointer example_anchor_sector 0 =
     Inr \<lparr> descriptor_tag =
             \<lparr> tag_identifier = 2, descriptor_version = 2, tag_check_sum = 5, reserved = 0,
               tag_serial_number = 0, descriptor_crc = 0, descriptor_crc_length = 0,
               tag_location = 256 \<rparr>,
           main_volume_descriptor_sequence_extent =
             \<lparr> ed_extent_length = 0, ed_extent_location = 0 \<rparr>,
           reserve_volume_descriptor_sequence_extent =
             \<lparr> ed_extent_length = 0, ed_extent_location = 0 \<rparr>,
           avdp_reserved = replicate 480 (CHR 0x00) \<rparr>"
  unfolding new_AnchorVolumeDescriptorPointer_def
  by (simp only: anchor_sector_fields anchor_sector_tag anchor_sector_extents
        anchor_sector_reserve bind_Inr)
     (simp add: assert_tag_identifier_def TagIdentifier_AnchorVolumeDescriptorPointer_def
        example_anchor_sector_def example_anchor_tag_def)


section \<open>Facts about the example images\<close>

lemma example_vrs_length: "length example_vrs_image = 38912"
  by (simp add: example_vrs_image_def vrs_sector_def)

lemma example_vrs_reads:
  "read_at example_vrs_image HEADER_SIZE SECTOR_SIZE = vrs_sector ''BEA01''"
  "read_at example_vrs_image (HEADER_SIZE + SECTOR_SIZE) SECTOR_SIZE = vrs_sector ''NSR02''"
  "read_at example_vrs_image (HEADER_SIZE + SECTOR_SIZE + SECTOR_SIZE) SECTOR_SIZE
     = vrs_sector ''TEA01''"
  by (simp_all add: read_at_def example_vrs_image_def vrs_sector_def HEADER_SIZE_def
        SECTOR_SIZE_def)

lemma vrs_sector_ident: "length ident = 5 \<Longrightarrow> sector_ident (vrs_sector ident) = ident"
  by (simp add: sector_ident_def vrs_sector_def)

lemma example_vrs_scanned:
  "scanned_sectors example_vrs_image HEADER_SIZE
     = [vrs_sector ''BEA01'', vrs_sector ''NSR02'', vrs_sector ''TEA01'']"
proof -
  have 4: "scanned_sectors example_vrs_image (HEADER_SIZE + SECTOR_SIZE + SECTOR_SIZE + SECTOR_SIZE)
             = []"
    by (subst scanned_sectors_step)
       (simp add: example_vrs_length HEADER_SIZE_def SECTOR_SIZE_def)
  have 3: "scanned_sectors example_vrs_image (HEADER_SIZE + SECTOR_SIZE + SECTOR_SIZE)
             = [vrs_sector ''TEA01'']"
    by (subst scanned_sectors_step)
       (simp add: example_vrs_reads 4 recognised_def vrs_sector_ident example_vrs_length,
        simp add: HEADER_SIZE_def SECTOR_SIZE_def)
  have 2: "scanned_sectors example_vrs_image (HEADER_SIZE + SECTOR_SIZE)
             = [vrs_sector ''NSR02'', vrs_sector ''TEA01'']"
    by (subst scanned_sectors_step)
       (simp add: example_vrs_reads 3 recognised_def vrs_sector_ident example_vrs_length,
        simp add: HEADER_SIZE_def SECTOR_SIZE_def)
  show ?thesis
    by (subst scanned_sectors_step)
       (simp add: example_vrs_reads 2 recognised_def vrs_sector_ident example_vrs_length,
        simp add: HEADER_SIZE_def SECTOR_SIZE_def)
qed

lemma example_vrs_valid: "spec_is_valid_udf example_vrs_image (length example_vrs_image)"
  by (simp add: spec_is_valid_udf_def example_vrs_scanned vrs_sector_ident)
     (simp add: example_vrs_length HEADER_SIZE_def SECTOR_SIZE_def)

lemma example_anchor_length: "length example_anchor_image = 526336"
  by (simp add: example_anchor_image_def example_anchor_tag_def)

lemma example_anchor_read: "read_at example_anchor_image 524288 16 = example_anchor_tag"
  by (simp add: read_at_def example_anchor_image_def)
     (simp add: example_anchor_tag_def)

lemma example_anchor_probe:
  "\<not> spec_probe_accepts example_anchor_image 526336 4096"
  "spec_probe_accepts example_anchor_image 526336 2048"
  by (simp_all add: spec_probe_accepts_def example_anchor_read anchor_tag_parses
        TagIdentifier_AnchorVolumeDescriptorPointer_def)


section \<open>The claims\<close>

text \<open>
  C9. The orchestrator's normalization of a candidate (uppercase, drop \<open>.\<close>, replace \<open>_\<close>
  by \<open>-\<close>) is idempotent on every byte string.
\<close>

theorem sanitize_idempotent: "sanitize (sanitize s) = sanitize s"
proof (induction s)
  case Nil
  show ?case by (simp add: sanitize_Nil)
next
  case (Cons c s)
  then show ?case
    by (auto simp add: sanitize_Nil sanitize_Cons upper_byte_eq_dot upper_byte_eq_underscore
          upper_byte_idem upper_byte_dash)
qed

text \<open>
  C10. \<open>Sierra\<close> is the only entry of the prefix table that uppercasing changes, and
  \<open>SIERRA\<close> is not in the table. A candidate that starts with \<open>Sierra\<close> has, after the
  normalization, the first segment \<open>SIERRA\<close> when a \<open>_\<close> or \<open>-\<close> follows the prefix, and
  the lookup loop always skips it. When the binary scanner returns such a hit, which it
  does without uppercasing, the orchestrator ends with "not found in database".
\<close>

theorem sierra_candidate_skipped:
  "filter (\<lambda>p. upper p \<noteq> p) PREFIXES = [''Sierra'']
   \<and> ''SIERRA'' \<notin> set PREFIXES
   \<and> hd (split_byte (CHR ''-'') (sanitize (''Sierra_'' @ rest))) = ''SIERRA''
   \<and> hd (split_byte (CHR ''-'') (sanitize (''Sierra-'' @ rest))) = ''SIERRA''
   \<and> lookup_entries dbs dt (Some (''Sierra'' @ rest) # entries) = lookup_entries dbs dt entries
   \<and> (lower (splitext_ext file_name) \<in> set [''.iso'', ''.bin'']
        \<and> find_in_binary file = Some (''Sierra'' @ rest) \<longrightarrow>
      get_playstation2_game_info dbs file_name (Inl e1) (Inl e2) file = Inl NotFoundInDatabase)"
proof -
  have 1: "hd (split_byte (CHR ''-'') (sanitize (''Sierra_'' @ rest))) = ''SIERRA''"
    using sierra_first_segment [of "CHR ''_''" rest] by simp
  have 2: "hd (split_byte (CHR ''-'') (sanitize (''Sierra-'' @ rest))) = ''SIERRA''"
    using sierra_first_segment [of "CHR ''-''" rest] by simp
  have 3: "get_playstation2_game_info dbs file_name (Inl e1) (Inl e2) file
             = Inl NotFoundInDatabase"
    if e: "lower (splitext_ext file_name) \<in> set [''.iso'', ''.bin'']"
      and f: "find_in_binary file = Some (''Sierra'' @ rest)"
  proof -
    have "get_playstation2_game_info dbs file_name (Inl e1) (Inl e2) file
            = lookup_entries dbs ''Binary'' [find_in_binary file]"
      using e by (simp add: get_playstation2_game_info_def)
    also have "\<dots> = lookup_entries dbs ''Binary'' [Some (''Sierra'' @ rest)]"
      by (simp only: f)
    also have "\<dots> = lookup_entries dbs ''Binary'' []"
      by (rule sierra_skip)
    finally show ?thesis by simp
  qed
  show ?thesis
    using mixed_case_prefixes SIERRA_not_prefix 1 2 sierra_skip [of dbs dt rest entries] 3
    by blast
qed

theorem sierra_candidate_skipped_witness:
  "find_in_binary ''Sierra_123.45;1'' = Some ''Sierra-12345''
   \<and> db_playstation2_official_us example_dbs ''Sierra-12345'' = Some ''Game B''
   \<and> db_playstation2_official_us example_dbs ''SIERRA-12345'' = Some ''Game B''
   \<and> get_playstation2_game_info example_dbs ''game.bin'' (Inl ReaderFailed) (Inl ReaderFailed)
        ''Sierra_123.45;1'' = Inl NotFoundInDatabase"
proof -
  have f: "find_in_binary ''Sierra_123.45;1'' = Some (''Sierra'' @ ''-12345'')"
    by (simp add: find_in_binary_small BUFFER_SIZE_def scan_sierra)
  have e: "lower (splitext_ext ''game.bin'') \<in> set [''.iso'', ''.bin'']"
    by (simp add: ext_bin)
  have "get_playstation2_game_info example_dbs ''game.bin'' (Inl ReaderFailed)
          (Inl ReaderFailed) ''Sierra_123.45;1'' = Inl NotFoundInDatabase"
    using sierra_candidate_skipped [of "''-12345''" example_dbs "''Binary''" "[]" "''game.bin''"
      "''Sierra_123.45;1''" ReaderFailed ReaderFailed] f e
    by blast
  then show ?thesis
    using f by (simp add: example_dbs_def)
qed

text \<open>
  C1: the code at the failing input. The UDF root directory holds the identifier
  \<open>SLUS_201.01;1\<close> and the US table holds \<open>SLUS-20101\<close>. Line 217 turns the identifier
  into \<open>SLUS-20101;1\<close>, the version segment still in place, and the orchestrator ends
  with "not found in database"; the claim says the serial returned is \<open>SLUS-20101\<close>. The
  binary scanner, given the same bytes, removes the semicolon (line 166), returns
  \<open>SLUS-20101\<close>, and the orchestrator resolves it.
\<close>

theorem udf_identifier_version_kept:
  "sanitize ''SLUS_201.01;1'' = ''SLUS-20101;1''
   \<and> db_playstation2_official_us example_dbs ''SLUS-20101'' = Some ''Game A''
   \<and> get_playstation2_game_info example_dbs ''game.iso'' (Inr [''SLUS_201.01;1''])
        (Inl ReaderFailed) [] = Inl NotFoundInDatabase
   \<and> find_in_binary ''SLUS_201.01;1'' = Some ''SLUS-20101''
   \<and> get_playstation2_game_info example_dbs ''game.iso'' (Inl ReaderFailed)
        (Inl ReaderFailed) ''SLUS_201.01;1''
       = Inr \<lparr> serial_number = ''SLUS-20101'', region = ''USA'', title = ''Game A'',
               disc_type = ''Binary'' \<rparr>"
proof -
  have 1: "sanitize ''SLUS_201.01;1'' = ''SLUS-20101;1''"
    by code_simp
  have 2: "db_playstation2_official_us example_dbs ''SLUS-20101'' = Some ''Game A''"
    by code_simp
  have 3: "lookup_entries example_dbs ''DVD'' [Some ''SLUS_201.01;1'']
             = Inl NotFoundInDatabase"
    by code_simp
  have 4: "find_in_binary ''SLUS_201.01;1'' = Some ''SLUS-20101''"
    by (simp add: find_in_binary_small BUFFER_SIZE_def search_whole_serial)
  have 5: "lookup_entries example_dbs ''Binary'' [Some ''SLUS-20101'']
             = Inr \<lparr> serial_number = ''SLUS-20101'', region = ''USA'', title = ''Game A'',
                     disc_type = ''Binary'' \<rparr>"
    by code_simp
  have 6: "get_playstation2_game_info example_dbs ''game.iso'' (Inr [''SLUS_201.01;1''])
             (Inl ReaderFailed) [] = Inl NotFoundInDatabase"
    by (simp add: get_playstation2_game_info_def ext_iso 3 del: lookup_entries.simps)
  have 7: "get_playstation2_game_info example_dbs ''game.iso'' (Inl ReaderFailed)
             (Inl ReaderFailed) ''SLUS_201.01;1''
           = Inr \<lparr> serial_number = ''SLUS-20101'', region = ''USA'', title = ''Game A'',
                   disc_type = ''Binary'' \<rparr>"
    by (simp add: get_playstation2_game_info_def ext_iso 4 5 del: lookup_entries.simps)
  from 1 2 6 4 7 show ?thesis
    by (intro conjI)
qed

text \<open>
  C2: the code at the failing input. On a \<open>.bin\<close> file that neither filesystem reader
  accepts and whose only serial is the placeholder \<open>SLUS_999.99;1\<close>, the scanner returns
  \<open>None\<close> and the orchestrator raises \<open>AttributeError\<close>, not "not found in database".
\<close>

theorem scanner_miss_raises_attribute_error:
  "find_in_binary ''SLUS_999.99;1'' = None
   \<and> get_playstation2_game_info dbs ''game.bin'' (Inl e1) (Inl e2) ''SLUS_999.99;1''
       = Inl AttributeError"
proof -
  have "search_prefixes PREFIXES ''SLUS_999.99;1'' = None" by code_simp
  then show ?thesis
    by (simp add: get_playstation2_game_info_def ext_bin find_in_binary_small BUFFER_SIZE_def)
qed

text \<open>
  C8: the code at the failing input. The serial \<open>SLUS_201.01;\<close> starts eight bytes before
  the 10 MiB boundary and ends after it; a search of the whole file finds it, the
  scanner with its six-byte rewind returns \<open>None\<close>.
\<close>

theorem straddling_serial_missed:
  "length (replicate (BUFFER_SIZE - 8) (CHR 0x00)) < BUFFER_SIZE
   \<and> BUFFER_SIZE < length (replicate (BUFFER_SIZE - 8) (CHR 0x00) @ ''SLUS_201.01;'')
   \<and> re_search ''SLUS'' (replicate (BUFFER_SIZE - 8) (CHR 0x00) @ ''SLUS_201.01;1'')
        = Some ''SLUS_201.01;''
   \<and> search_prefixes PREFIXES (replicate (BUFFER_SIZE - 8) (CHR 0x00) @ ''SLUS_201.01;1'')
        = Some ''SLUS-20101''
   \<and> find_in_binary (replicate (BUFFER_SIZE - 8) (CHR 0x00) @ ''SLUS_201.01;1'') = None"
proof -
  have r: "re_search ''SLUS'' ''SLUS_201.01;1'' = Some ''SLUS_201.01;''" by code_simp
  have "re_search ''SLUS'' (replicate (BUFFER_SIZE - 8) (CHR 0x00) @ ''SLUS_201.01;1'')
        = Some ''SLUS_201.01;''"
    using re_search_padding [of "''SLUS''" "CHR 0x00" "BUFFER_SIZE - 8" "''SLUS_201.01;1''"]
    by (simp only: r) simp
  then show ?thesis
    using straddling_missed straddling_whole
    by (simp add: straddling_file_def) (simp add: BUFFER_SIZE_def)
qed

text \<open>
  C5. \<open>get_sector_size\<close> returns the first of 4096, 2048, 1024, 512, in that order, that
  the acceptance test of the probe accepts, and raises when none is accepted.
\<close>

theorem get_sector_size_first_accepted:
  "get_sector_size file file_size =
     (case find (spec_probe_accepts file file_size) [4096, 2048, 1024, 512] of
        Some s \<Rightarrow> Inr s
      | None \<Rightarrow> Inl NoSectorSize)"
proof -
  have "get_sector_size_loop file file_size sizes =
          (case find (spec_probe_accepts file file_size) sizes of
             Some s \<Rightarrow> Inr s
           | None \<Rightarrow> Inl NoSectorSize)" for sizes
    by (induction sizes) (auto simp: spec_probe_accepts_def split: sum.splits)
  then show ?thesis
    by (simp only: get_sector_size_def)
qed

theorem get_sector_size_first_accepted_witness:
  "\<not> spec_probe_accepts example_anchor_image (length example_anchor_image) 4096
   \<and> spec_probe_accepts example_anchor_image (length example_anchor_image) 2048
   \<and> get_sector_size example_anchor_image (length example_anchor_image) = Inr 2048"
  using get_sector_size_first_accepted [of example_anchor_image "length example_anchor_image"]
  by (simp add: example_anchor_length example_anchor_probe)

text \<open>
  C7. A Descriptor Tag that the constructor returns lies within the buffer, stores byte
  4 as its checksum, and the sum of the other fifteen header bytes modulo 256 equals
  it; whenever that equation fails the constructor raises. Every descriptor class
  obtains its tag from this constructor, at whatever buffer and offset; for the Anchor
  Volume Descriptor Pointer this is carried through its own constructor.
\<close>

theorem descriptor_tag_checksum:
  "(new_DescriptorTag buffer start = Inr tag \<longrightarrow>
      start + 16 \<le> length buffer
      \<and> tag_check_sum tag = byte_val (buffer ! (start + 4))
      \<and> spec_tag_bytes_sum buffer start mod 256 = tag_check_sum tag)
   \<and> (spec_tag_bytes_sum buffer start mod 256 \<noteq> byte_val (buffer ! (start + 4)) \<longrightarrow>
      (\<exists>e. new_DescriptorTag buffer start = Inl e))
   \<and> (new_AnchorVolumeDescriptorPointer buffer start = Inr avdp \<longrightarrow>
      spec_tag_bytes_sum buffer start mod 256 = tag_check_sum (descriptor_tag avdp))"
  using new_DescriptorTag_Inr [of buffer start tag]
    new_DescriptorTag_checksum_fails [of buffer start]
    anchor_pointer_checksum [of buffer start avdp]
  by blast

theorem descriptor_tag_checksum_witness:
  "new_DescriptorTag example_anchor_tag 0 =
     Inr \<lparr> tag_identifier = 2, descriptor_version = 2, tag_check_sum = 5, reserved = 0,
           tag_serial_number = 0, descriptor_crc = 0, descriptor_crc_length = 0,
           tag_location = 256 \<rparr>
   \<and> spec_tag_bytes_sum example_anchor_tag 0 mod 256 = 5
   \<and> spec_tag_bytes_sum example_bad_tag 0 mod 256 = 5
   \<and> byte_val (example_bad_tag ! 4) = 6
   \<and> new_DescriptorTag example_bad_tag 0 = Inl (ChecksumMismatch 5 6)
   \<and> (case new_AnchorVolumeDescriptorPointer example_anchor_sector 0 of
         Inl e \<Rightarrow> False
       | Inr avdp \<Rightarrow> spec_tag_bytes_sum example_anchor_sector 0 mod 256
                      = tag_check_sum (descriptor_tag avdp))"
proof -
  from descriptor_tag_checksum [of example_anchor_tag 0
      "\<lparr> tag_identifier = 2, descriptor_version = 2, tag_check_sum = 5, reserved = 0,
         tag_serial_number = 0, descriptor_crc = 0, descriptor_crc_length = 0,
         tag_location = 256 \<rparr>"] anchor_tag_parses
  have 1: "spec_tag_bytes_sum example_anchor_tag 0 mod 256 = 5" by simp
  obtain avdp where p: "new_AnchorVolumeDescriptorPointer example_anchor_sector 0 = Inr avdp"
    using anchor_sector_parses by blast
  from descriptor_tag_checksum [of example_anchor_sector 0 _ avdp] p
  have 2: "spec_tag_bytes_sum example_anchor_sector 0 mod 256 = tag_check_sum (descriptor_tag avdp)"
    by blast
  from 1 2 p anchor_tag_parses bad_tag_sum bad_tag_byte4 bad_tag_fails show ?thesis by simp
qed

text \<open>
  C6. \<open>is_valid_udf\<close> never raises and returns a boolean: true exactly when the file size
  is at least 32 KiB plus one 2048-byte sector and, among the successive full sectors
  from offset 32 KiB up to the first one whose identifier is not one of the seven known
  markers (or to the last full sector), there is one with \<open>BEA01\<close>, one with \<open>NSR02\<close> or
  \<open>NSR03\<close>, and one with \<open>TEA01\<close>.
\<close>

theorem is_valid_udf_iff_markers:
  "is_valid_udf file file_size = Inr (spec_is_valid_udf file file_size)"
proof (cases "file_size < HEADER_SIZE + SECTOR_SIZE")
  case True
  then show ?thesis
    by (simp add: is_valid_udf_def spec_is_valid_udf_def)
next
  case False
  then show ?thesis
    by (simp add: is_valid_udf_def spec_is_valid_udf_def is_valid_udf_loop_flags)
qed

theorem is_valid_udf_iff_markers_witness:
  "scanned_sectors example_vrs_image HEADER_SIZE
     = [vrs_sector ''BEA01'', vrs_sector ''NSR02'', vrs_sector ''TEA01'']
   \<and> is_valid_udf example_vrs_image (length example_vrs_image) = Inr True"
  using is_valid_udf_iff_markers [of example_vrs_image "length example_vrs_image"]
    example_vrs_valid example_vrs_scanned
  by simp

text \<open>
  C3, as stated, fails: for a file entry with allocation type embedded the constructor
  of the File Content Buffer raises \<open>NotImplementedError\<close>.
\<close>

theorem embedded_buffer_construction_fails:
  "allocation_type (icb_tag example_embedded_entry) = AllocationType_embedded
   \<and> new_FileContentBuffer example_partition example_embedded_entry 2048
       = Inl NotImplementedError"
proof -
  have a: "allocation_type (icb_tag example_embedded_entry) = AllocationType_embedded"
    by (simp add: example_embedded_entry_def AllocationType_embedded_def)
  with embedded_not_constructed [OF a] show ?thesis by simp
qed

text \<open>
  C3, amended. For every file entry whose allocation type is embedded, constructing the
  File Content Buffer raises \<open>NotImplementedError\<close>. The method \<open>read\<close>, on a buffer object that
  holds such an entry, returns the slice of the inline content: \<open>min(n, length - pos)\<close>
  bytes starting at \<open>pos\<close>, and no bytes when \<open>pos\<close> is past the end.
\<close>

theorem embedded_buffer_raises_read_slices:
  "allocation_type (icb_tag fe) = AllocationType_embedded \<longrightarrow>
     new_FileContentBuffer part fe bs = Inl NotImplementedError
     \<and> read \<lparr> partition = part, file_entry = fe, block_size = bs, extents = exts \<rparr>
          pos offset n
         = Inr (take (min n (length (allocation_descriptors fe) - pos))
                  (drop pos (allocation_descriptors fe)))"
  using embedded_not_constructed [of fe part bs]
    read_embedded [of "\<lparr> partition = part, file_entry = fe, block_size = bs, extents = exts \<rparr>"
      pos offset n]
  by simp

theorem embedded_buffer_raises_read_slices_witness:
  "new_FileContentBuffer example_partition example_embedded_entry 2048
       = Inl NotImplementedError
   \<and> read \<lparr> partition = example_partition, file_entry = example_embedded_entry,
            block_size = 2048, extents = [] \<rparr> 1 0 2 = Inr ''at''"
proof -
  have a: "allocation_type (icb_tag example_embedded_entry) = AllocationType_embedded"
    by (simp add: example_embedded_entry_def AllocationType_embedded_def)
  have d: "take (min 2 (length (allocation_descriptors example_embedded_entry) - 1))
             (drop 1 (allocation_descriptors example_embedded_entry)) = ''at''"
    by (simp add: example_embedded_entry_def)
  from embedded_buffer_raises_read_slices [of example_embedded_entry example_partition 2048
      "[]" 1 0 2] a
  show ?thesis by (simp only: d)
qed

text \<open>
  C4: the code at the failing input. The buffer is constructed from two short
  allocation descriptors; a read of all 4096 bytes from position 0 spans both extents
  and returns only the 2048 bytes of the second one, because each pass of the loop
  replaces \<open>buffer\<close> by the bytes it has just read.
\<close>

theorem read_across_extents_returns_last_chunk:
  "new_FileContentBuffer example_partition example_short_entry 2048 = Inr example_short_buffer
   \<and> min (capacity example_short_buffer - 0) 4096 = 4096
   \<and> pp_file (physical_partition (partition example_short_buffer))
       = replicate 2048 (CHR ''A'') @ replicate 2048 (CHR ''B'')
   \<and> read example_short_buffer 0 0 4096 = Inr (replicate 2048 (CHR ''B''))"
  by (simp add: example_construct example_read)
     (simp add: capacity_def example_short_buffer_def example_short_entry_def
        example_partition_def)

end
